theory Spec2Isabelle
  imports Main "HOL-Library.Word"
begin

unbundle bit_operations_syntax

section \<open>The LCD1602 driver of main.c: data model\<close>

text \<open>
  The driver talks to an HD44780 controller behind an I2C port expander. The C types
  \<open>uint8_t\<close> and \<open>uint32_t\<close> are 8-bit and 32-bit words; \<open>int\<close>, the type C computes
  \<open>&\<close>, \<open>|\<close> and \<open><<\<close> in after integer promotion, is 32 bits wide on the S32K144
  (only its bit pattern matters below, so it is a \<open>32 word\<close> too).
\<close>

type_synonym u8 = "8 word"
type_synonym u32 = "32 word"
type_synonym c_int = "32 word"

text \<open>
  The HD44780 command macros of main.c, lines 28 to 33. They are \<open>int\<close> constants; a
  call converts its argument to the \<open>uint8_t\<close> parameter.
\<close>

definition LCD_CLEAR_DISPLAY :: c_int where "LCD_CLEAR_DISPLAY = 0x01"
definition LCD_RETURN_HOME :: c_int where "LCD_RETURN_HOME = 0x02"
definition LCD_ENTRY_MODE_SET :: c_int where "LCD_ENTRY_MODE_SET = 0x04"
definition LCD_DISPLAY_CONTROL :: c_int where "LCD_DISPLAY_CONTROL = 0x08"
definition LCD_FUNCTION_SET :: c_int where "LCD_FUNCTION_SET = 0x20"
definition LCD_SET_DDRAM_ADDR :: c_int where "LCD_SET_DDRAM_ADDR = 0x80"

text \<open>
  Modelled from the spec: the macro \<open>INST_LPI2C0\<close> is declared in
  peripherals_lpi2c_config_1.h, which is not among the sources. It names the one bus
  instance the display hangs on ("a fixed 7-bit bus address"); the model keeps it as a
  symbol and gives it no number.
\<close>

datatype lpi2c_instance = INST_LPI2C0

text \<open>
  Modelled from the spec: \<open>status_t\<close> is declared in the vendor SDK, which is not among
  the sources. The spec's Bus Transport returns "success/failure" and obeys a timeout.
\<close>

datatype status_t = STATUS_SUCCESS | STATUS_ERROR | STATUS_TIMEOUT

text \<open>
  Everything the driver does is a call to one of two external services, so the state of
  the program is the trace of these calls, oldest first: a blocking bus write with its
  five arguments, or a delay with its duration.
\<close>

datatype event =
    MasterSend (bus: lpi2c_instance) (txBuff: "u8 list") (txSize: u32)
      (sendStop: bool) (timeout_ms: u32)
  | TimeDelay (delay_ms: u32)

type_synonym trace = "event list"

text \<open>
  The transport is a parameter of the model: given the calls made so far and the call
  made now, it answers with a status. No assumption is made about it.
\<close>

type_synonym transport = "trace \<Rightarrow> event \<Rightarrow> status_t"

definition transport_ok :: transport where
  "transport_ok tr call = STATUS_SUCCESS"

definition transport_down :: transport where
  "transport_down tr call = STATUS_TIMEOUT"

text \<open>
  Modelled from the spec: \<open>LPI2C_DRV_MasterSendDataBlocking\<close> is the vendor driver, not
  among the sources. The spec's Bus Transport is
  \<open>send(address, bytes, length, blocking=true, timeoutMs) -> status\<close>: one blocking write
  that returns a status. The model records the call and returns the transport's answer.
\<close>

definition LPI2C_DRV_MasterSendDataBlocking ::
  "transport \<Rightarrow> lpi2c_instance \<Rightarrow> u8 list \<Rightarrow> u32 \<Rightarrow> bool \<Rightarrow> u32 \<Rightarrow> trace \<Rightarrow> status_t \<times> trace"
where
  "LPI2C_DRV_MasterSendDataBlocking drv inst buf len stop tmo tr =
     (let call = MasterSend inst buf len stop tmo in (drv tr call, tr @ [call]))"

text \<open>
  Modelled from the spec: \<open>OSIF_TimeDelay\<close> is the vendor's OS interface, not among the
  sources. The spec's Delay Service "blocks the calling context for at least the
  requested duration"; the model records the requested duration.
\<close>

definition OSIF_TimeDelay :: "u32 \<Rightarrow> trace \<Rightarrow> trace" where
  "OSIF_TimeDelay ms tr = tr @ [TimeDelay ms]"

section \<open>The driver functions\<close>

text \<open>
  \<open>LCD_SendByte\<close>, main.c lines 149 to 167. Each C expression is computed in \<open>int\<close>
  after promotion of its \<open>uint8_t\<close> operands and truncated by the assignment to a
  \<open>uint8_t\<close> object. The function returns \<open>void\<close>: the model returns the new trace only.
\<close>

definition LCD_SendByte :: "transport \<Rightarrow> u8 \<Rightarrow> u8 \<Rightarrow> trace \<Rightarrow> trace" where
  "LCD_SendByte drv data rs_bit tr =
     (let high_nibble = (ucast ((ucast data :: c_int) AND 0xF0) :: u8);
          low_nibble = (ucast (push_bit 4 (ucast data :: c_int) AND 0xF0) :: u8);
          p0 = (ucast ((ucast high_nibble :: c_int) OR ucast rs_bit OR 0x08 OR 0x04) :: u8);
          p1 = (ucast ((ucast high_nibble :: c_int) OR ucast rs_bit OR 0x08) :: u8);
          p2 = (ucast ((ucast low_nibble :: c_int) OR ucast rs_bit OR 0x08 OR 0x04) :: u8);
          p3 = (ucast ((ucast low_nibble :: c_int) OR ucast rs_bit OR 0x08) :: u8);
          i2c_payload = [p0, p1, p2, p3];
          (status, tr') =
            LPI2C_DRV_MasterSendDataBlocking drv INST_LPI2C0 i2c_payload 4 True 100 tr
      in tr')"

text \<open>\<open>LCD_SendCommand\<close> and \<open>LCD_SendData\<close>, main.c lines 173 to 185.\<close>

definition LCD_SendCommand :: "transport \<Rightarrow> u8 \<Rightarrow> trace \<Rightarrow> trace" where
  "LCD_SendCommand drv command tr = LCD_SendByte drv command 0 tr"

definition LCD_SendData :: "transport \<Rightarrow> u8 \<Rightarrow> trace \<Rightarrow> trace" where
  "LCD_SendData drv data tr = LCD_SendByte drv data 1 tr"

text \<open>
  \<open>LCD_SendString\<close>, main.c lines 191 to 197. The argument is a pointer into memory,
  which the function only reads: memory is a function from addresses to bytes and the
  pointer an address. Addresses are natural numbers, so \<open>str++\<close> never wraps (C leaves
  pointer overflow undefined). The \<open>while\<close> loop has no bound of its own: it runs until
  it reads a zero byte. It is a partial function on its loop state, the pointer and the
  trace, and \<open>None\<close> stands for a loop that never exits. A \<open>char\<close> read from memory
  is tested against zero and converted to the \<open>uint8_t\<close> parameter of \<open>LCD_SendData\<close>,
  which keeps its eight bits: memory holds bytes.
\<close>

type_synonym memory = "nat \<Rightarrow> u8"

partial_function (option) LCD_SendString_while ::
  "transport \<Rightarrow> memory \<Rightarrow> nat \<Rightarrow> trace \<Rightarrow> (nat \<times> trace) option"
where
  "LCD_SendString_while drv mem str tr =
     (if mem str \<noteq> 0
      then LCD_SendString_while drv mem (str + 1) (LCD_SendData drv (mem str) tr)
      else Some (str, tr))"

declare LCD_SendString_while.simps [code]

definition LCD_SendString :: "transport \<Rightarrow> memory \<Rightarrow> nat \<Rightarrow> trace \<Rightarrow> trace option" where
  "LCD_SendString drv mem str tr = map_option snd (LCD_SendString_while drv mem str tr)"

text \<open>\<open>LCD_Init\<close>, main.c lines 203 to 225: fifteen calls in a row.\<close>

definition LCD_Init :: "transport \<Rightarrow> trace \<Rightarrow> trace" where
  "LCD_Init drv tr =
     (let tr = OSIF_TimeDelay 50 tr;
          tr = LCD_SendByte drv 0x30 0 tr;
          tr = OSIF_TimeDelay 5 tr;
          tr = LCD_SendByte drv 0x30 0 tr;
          tr = OSIF_TimeDelay 1 tr;
          tr = LCD_SendByte drv 0x30 0 tr;
          tr = OSIF_TimeDelay 1 tr;
          tr = LCD_SendByte drv 0x20 0 tr;
          tr = OSIF_TimeDelay 1 tr;
          tr = LCD_SendCommand drv (ucast (LCD_FUNCTION_SET OR 0x08)) tr;
          tr = LCD_SendCommand drv (ucast (LCD_DISPLAY_CONTROL OR 0x04)) tr;
          tr = LCD_SendCommand drv (ucast LCD_CLEAR_DISPLAY) tr;
          tr = OSIF_TimeDelay 2 tr;
          tr = LCD_SendCommand drv (ucast (LCD_ENTRY_MODE_SET OR 0x02)) tr;
          tr = LCD_SendCommand drv (ucast LCD_RETURN_HOME) tr
      in tr)"

section \<open>Notions of the specification\<close>

text \<open>
  The Transaction Burst in the spec's words (its sections 3 and 8): for a byte and a
  mode flag, \<open>[(hi|mode|0x0C), (hi|mode|0x08), (lo|mode|0x0C), (lo|mode|0x08)]\<close> with
  \<open>hi = byte & 0xF0\<close> and \<open>lo = (byte<<4) & 0xF0\<close>, on bytes.
\<close>

definition spec_burst :: "u8 \<Rightarrow> u8 \<Rightarrow> u8 list" where
  "spec_burst byte mode =
     (let hi = byte AND 0xF0; lo = push_bit 4 byte AND 0xF0
      in [hi OR mode OR 0x0C, hi OR mode OR 0x08, lo OR mode OR 0x0C, lo OR mode OR 0x08])"

text \<open>
  A raw half-byte transaction in the spec's words (its sections 3 and 4.4): one nibble
  group alone, the nibble on the upper bits with the strobe high, then low.
\<close>

definition spec_raw_nibble :: "u8 \<Rightarrow> u8 \<Rightarrow> u8 list" where
  "spec_raw_nibble nibble mode =
     (let hi = push_bit 4 nibble AND 0xF0 in [hi OR mode OR 0x0C, hi OR mode OR 0x08])"

text \<open>
  A null-terminated string in memory: the bytes \<open>cs\<close>, none of them zero, stored from
  address \<open>p\<close> on and followed by a zero byte.
\<close>

fun c_string_at :: "memory \<Rightarrow> nat \<Rightarrow> u8 list \<Rightarrow> bool" where
  "c_string_at mem p [] = (mem p = 0)"
| "c_string_at mem p (c # cs) = (mem p = c \<and> c \<noteq> 0 \<and> c_string_at mem (p + 1) cs)"

text \<open>A memory that holds the bytes \<open>cs\<close> from address \<open>p\<close> on and zero elsewhere.\<close>

definition memory_of :: "nat \<Rightarrow> u8 list \<Rightarrow> memory" where
  "memory_of p cs a = (if p \<le> a \<and> a < p + length cs then cs ! (a - p) else 0)"

text \<open>The durations of the delays a trace asks for, in order.\<close>

fun requested_delays :: "trace \<Rightarrow> u32 list" where
  "requested_delays [] = []"
| "requested_delays (TimeDelay d # tr) = d # requested_delays tr"
| "requested_delays (MasterSend inst buf len stop tmo # tr) = requested_delays tr"

text \<open>
  The steps of the Initialization Sequencer in the spec's words (its section 4.4): a
  wait of at least a minimum, a raw half-byte transaction of a nibble, or a command
  sent through the Byte Transmitter. An event of the trace matches a step when it is a
  delay of at least the minimum, or a bus write whose buffer is the one nibble group,
  or a bus write whose buffer is the burst of the command byte.
\<close>

datatype spec_step = Spec_Wait u32 | Spec_Raw_Nibble u8 | Spec_Command u8

fun step_matches :: "spec_step \<Rightarrow> event \<Rightarrow> bool" where
  "step_matches (Spec_Wait m) (TimeDelay d) = (m \<le> d)"
| "step_matches (Spec_Raw_Nibble n) (MasterSend inst buf len stop tmo) =
     (buf = spec_raw_nibble n 0)"
| "step_matches (Spec_Command c) (MasterSend inst buf len stop tmo) =
     (buf = spec_burst c 0)"
| "step_matches (Spec_Wait m) (MasterSend inst buf len stop tmo) = False"
| "step_matches (Spec_Raw_Nibble n) (TimeDelay d) = False"
| "step_matches (Spec_Command c) (TimeDelay d) = False"

text \<open>
  The eight steps in order, for a given way of sending the sync and the switch step:
  power-settle; force 8-bit sync three times, with waits of at least 5, 1 and 1;
  switch to 4-bit and a wait of at least 1; function set (4-bit, 2 lines, 5x8: 0x28 in
  the controller's encoding); display control (display on, cursor and blink off: 0x0C);
  clear (0x01) and a wait of at least 2; entry mode (increment, no shift: 0x06); home
  (0x02).
\<close>

definition init_steps :: "spec_step \<Rightarrow> spec_step \<Rightarrow> spec_step list" where
  "init_steps sync switch =
     [Spec_Wait 50,
      sync, Spec_Wait 5, sync, Spec_Wait 1, sync, Spec_Wait 1,
      switch, Spec_Wait 1,
      Spec_Command 0x28,
      Spec_Command 0x0C,
      Spec_Command 0x01, Spec_Wait 2,
      Spec_Command 0x06,
      Spec_Command 0x02]"

text \<open>Section 4.4 as written: the sync and the switch step are raw nibbles 0x3 and 0x2.\<close>

definition spec_init_steps :: "spec_step list" where
  "spec_init_steps = init_steps (Spec_Raw_Nibble 0x3) (Spec_Raw_Nibble 0x2)"

section \<open>Integer promotion and the burst\<close>

text \<open>
  Computing in \<open>int\<close> and truncating to a byte gives what the same operators give on
  bytes: the operands are bytes, and the mask \<open>0xF0\<close> cuts off what the shift moves
  beyond bit 7.
\<close>

lemma promote_and:
  "(ucast ((ucast (d::u8) :: c_int) AND 0xF0) :: u8) = d AND 0xF0"
  by (rule bit_word_eqI) (auto simp: bit_simps)

lemma promote_shift:
  "(ucast (push_bit 4 (ucast (d::u8) :: c_int) AND 0xF0) :: u8) = push_bit 4 d AND 0xF0"
  by (rule bit_word_eqI) (auto simp: bit_simps)

lemma promote_or_en:
  "(ucast ((ucast (h::u8) :: c_int) OR ucast (r::u8) OR 0x0C) :: u8) = h OR r OR 0x0C"
  by (rule bit_word_eqI) (auto simp: bit_simps)

lemma promote_or:
  "(ucast ((ucast (h::u8) :: c_int) OR ucast (r::u8) OR 0x08) :: u8) = h OR r OR 0x08"
  by (rule bit_word_eqI) (auto simp: bit_simps)

lemma LCD_SendByte_burst:
  "LCD_SendByte drv d rs tr = tr @ [MasterSend INST_LPI2C0 (spec_burst d rs) 4 True 100]"
  unfolding LCD_SendByte_def LPI2C_DRV_MasterSendDataBlocking_def spec_burst_def Let_def
  by (simp add: promote_and promote_shift promote_or_en promote_or)

lemma LCD_SendData_burst:
  "LCD_SendData drv d tr = tr @ [MasterSend INST_LPI2C0 (spec_burst d 1) 4 True 100]"
  by (simp add: LCD_SendData_def LCD_SendByte_burst)

lemma LCD_SendCommand_burst:
  "LCD_SendCommand drv d tr = tr @ [MasterSend INST_LPI2C0 (spec_burst d 0) 4 True 100]"
  by (simp add: LCD_SendCommand_def LCD_SendByte_burst)

lemma length_spec_burst: "length (spec_burst d rs) = 4"
  by (simp add: spec_burst_def Let_def)







section \<open>The loop of the String Writer\<close>

text \<open>
  On a null-terminated string the loop exits with the pointer on the terminator, after
  one data transmission for each character.
\<close>

lemma LCD_SendString_while_c_string:
  "c_string_at mem str cs \<Longrightarrow>
   LCD_SendString_while drv mem str tr =
     Some (str + length cs,
           tr @ map (\<lambda>c. MasterSend INST_LPI2C0 (spec_burst c 1) 4 True 100) cs)"
proof (induction cs arbitrary: str tr)
  case Nil
  then show ?case by (simp add: LCD_SendString_while.simps)
next
  case (Cons c cs)
  from Cons.prems have m: "mem str = c" "c \<noteq> 0" and rest: "c_string_at mem (str + 1) cs"
    by simp_all
  have "LCD_SendString_while drv mem str tr =
        LCD_SendString_while drv mem (str + 1) (LCD_SendData drv c tr)"
    using m by (subst LCD_SendString_while.simps) simp
  also have "\<dots> = Some (str + 1 + length cs,
      LCD_SendData drv c tr @ map (\<lambda>c. MasterSend INST_LPI2C0 (spec_burst c 1) 4 True 100) cs)"
    by (rule Cons.IH [OF rest])
  finally show ?case by (simp add: LCD_SendData_burst)
qed

lemma foldl_LCD_SendData:
  "foldl (\<lambda>t c. LCD_SendData drv c t) tr cs =
     tr @ map (\<lambda>c. MasterSend INST_LPI2C0 (spec_burst c 1) 4 True 100) cs"
  by (induction cs arbitrary: tr) (simp_all add: LCD_SendData_burst)

text \<open>
  The model's loop can run forever: it returns only when it has found a zero byte, so
  on a memory without one from \<open>str\<close> on it never returns.
\<close>

lemma LCD_SendString_while_stops_at_zero:
  assumes "LCD_SendString_while drv mem str tr = Some r"
  shows "\<exists>n. mem (str + n) = 0 \<and> fst r = str + n"
proof (rule LCD_SendString_while.raw_induct
    [where P = "\<lambda>drv mem str tr r. \<exists>n. mem (str + n) = 0 \<and> fst r = str + n", OF _ assms])
  fix f :: "transport \<Rightarrow> memory \<Rightarrow> nat \<Rightarrow> trace \<Rightarrow> (nat \<times> trace) option"
    and drv :: transport and mem :: memory and str :: nat and tr :: trace
    and r :: "nat \<times> trace"
  assume IH: "\<And>drv mem str tr r. f drv mem str tr = Some r \<Longrightarrow>
    \<exists>n. mem (str + n) = 0 \<and> fst r = str + n"
  assume step: "(if mem str \<noteq> 0
    then f drv mem (str + 1) (LCD_SendData drv (mem str) tr) else Some (str, tr)) = Some r"
  show "\<exists>n. mem (str + n) = 0 \<and> fst r = str + n"
  proof (cases "mem str = 0")
    case True
    with step have "r = (str, tr)" by simp
    with True show ?thesis by (intro exI [of _ 0]) simp
  next
    case False
    with step have "f drv mem (str + 1) (LCD_SendData drv (mem str) tr) = Some r" by simp
    from IH [OF this] obtain n where "mem (str + 1 + n) = 0" "fst r = str + 1 + n" by blast
    then show ?thesis by (intro exI [of _ "Suc n"]) simp
  qed
qed

lemma LCD_SendString_while_diverges:
  "(\<forall>n. mem (str + n) \<noteq> 0) \<Longrightarrow> LCD_SendString_while drv mem str tr = None"
  using LCD_SendString_while_stops_at_zero [of drv mem str tr]
  by (cases "LCD_SendString_while drv mem str tr") auto

text \<open>The loop does not depend on the transport: no status reaches it.\<close>

lemma LCD_SendData_any_transport: "LCD_SendData drv1 c tr = LCD_SendData drv2 c tr"
  by (simp add: LCD_SendData_burst)

lemma LCD_SendString_while_transfer:
  assumes "LCD_SendString_while drv1 mem str tr = Some r"
  shows "LCD_SendString_while drv2 mem str tr = Some r"
proof (rule LCD_SendString_while.raw_induct
    [where P = "\<lambda>drv mem str tr r. LCD_SendString_while drv2 mem str tr = Some r", OF _ assms])
  fix f :: "transport \<Rightarrow> memory \<Rightarrow> nat \<Rightarrow> trace \<Rightarrow> (nat \<times> trace) option"
    and drv :: transport and mem :: memory and str :: nat and tr :: trace
    and r :: "nat \<times> trace"
  assume IH: "\<And>drv mem str tr r. f drv mem str tr = Some r \<Longrightarrow>
    LCD_SendString_while drv2 mem str tr = Some r"
  assume step: "(if mem str \<noteq> 0
    then f drv mem (str + 1) (LCD_SendData drv (mem str) tr) else Some (str, tr)) = Some r"
  show "LCD_SendString_while drv2 mem str tr = Some r"
  proof (cases "mem str = 0")
    case True
    with step have "r = (str, tr)" by simp
    with True show ?thesis by (subst LCD_SendString_while.simps) simp
  next
    case False
    with step have "f drv mem (str + 1) (LCD_SendData drv (mem str) tr) = Some r" by simp
    from IH [OF this]
    have "LCD_SendString_while drv2 mem (str + 1) (LCD_SendData drv (mem str) tr) = Some r" .
    then have "LCD_SendString_while drv2 mem (str + 1) (LCD_SendData drv2 (mem str) tr) = Some r"
      by (simp add: LCD_SendData_any_transport [of drv _ _ drv2])
    with False show ?thesis by (subst LCD_SendString_while.simps) simp
  qed
qed

lemma LCD_SendString_while_any_transport:
  "LCD_SendString_while drv1 mem str tr = LCD_SendString_while drv2 mem str tr"
proof (cases "LCD_SendString_while drv1 mem str tr")
  case (Some r)
  then show ?thesis by (simp add: LCD_SendString_while_transfer [OF Some])
next
  case None
  show ?thesis
  proof (cases "LCD_SendString_while drv2 mem str tr")
    case None2: None
    with None show ?thesis by simp
  next
    case (Some r)
    from LCD_SendString_while_transfer [OF Some] None show ?thesis by simp
  qed
qed

section \<open>The trace of the Initialization Sequencer\<close>

lemma LCD_Init_trace:
  "LCD_Init drv tr = tr @
    [TimeDelay 50,
     MasterSend INST_LPI2C0 [0x3C, 0x38, 0x0C, 0x08] 4 True 100,
     TimeDelay 5,
     MasterSend INST_LPI2C0 [0x3C, 0x38, 0x0C, 0x08] 4 True 100,
     TimeDelay 1,
     MasterSend INST_LPI2C0 [0x3C, 0x38, 0x0C, 0x08] 4 True 100,
     TimeDelay 1,
     MasterSend INST_LPI2C0 [0x2C, 0x28, 0x0C, 0x08] 4 True 100,
     TimeDelay 1,
     MasterSend INST_LPI2C0 [0x2C, 0x28, 0x8C, 0x88] 4 True 100,
     MasterSend INST_LPI2C0 [0x0C, 0x08, 0xCC, 0xC8] 4 True 100,
     MasterSend INST_LPI2C0 [0x0C, 0x08, 0x1C, 0x18] 4 True 100,
     TimeDelay 2,
     MasterSend INST_LPI2C0 [0x0C, 0x08, 0x6C, 0x68] 4 True 100,
     MasterSend INST_LPI2C0 [0x0C, 0x08, 0x2C, 0x28] 4 True 100]"
  unfolding LCD_Init_def Let_def
  by (simp add: LCD_SendCommand_burst LCD_SendByte_burst OSIF_TimeDelay_def spec_burst_def
      LCD_FUNCTION_SET_def LCD_DISPLAY_CONTROL_def LCD_CLEAR_DISPLAY_def
      LCD_ENTRY_MODE_SET_def LCD_RETURN_HOME_def)

section \<open>The Byte Transmitter\<close>

text \<open>
  Claim C1. For every input byte and every mode flag (0 for Command, 1 for Data among
  them), \<open>LCD_SendByte\<close> adds to the trace one bus write whose payload is exactly
  \<open>[(hi|mode|0x0C), (hi|mode|0x08), (lo|mode|0x0C), (lo|mode|0x08)]\<close>, with
  \<open>hi = byte & 0xF0\<close> and \<open>lo = (byte<<4) & 0xF0\<close>; for the byte 0x20 sent as a
  command the payload is \<open>[0x2C, 0x28, 0x0C, 0x08]\<close>.
\<close>

theorem LCD_SendByte_payload:
  "LCD_SendByte drv byte mode tr = tr @
     [MasterSend INST_LPI2C0
        [(byte AND 0xF0) OR mode OR 0x0C, (byte AND 0xF0) OR mode OR 0x08,
         (push_bit 4 byte AND 0xF0) OR mode OR 0x0C, (push_bit 4 byte AND 0xF0) OR mode OR 0x08]
        4 True 100]
   \<and> LCD_SendByte drv 0x20 0 tr = tr @ [MasterSend INST_LPI2C0 [0x2C, 0x28, 0x0C, 0x08] 4 True 100]"
  by (simp add: LCD_SendByte_burst spec_burst_def Let_def)

text \<open>
  Claim C5. For every input byte, \<open>LCD_SendByte\<close> submits its Transaction Burst by
  exactly one call of the blocking bus write: the trace grows by one event, whose
  buffer is the four bytes of the burst of the input, with the length 4 and the timeout
  100, whatever the byte and the mode flag.
\<close>

theorem LCD_SendByte_single_call:
  "LCD_SendByte drv byte mode tr =
     tr @ [MasterSend INST_LPI2C0 (spec_burst byte mode) 4 True 100]
   \<and> length (spec_burst byte mode) = 4
   \<and> length (LCD_SendByte drv byte mode tr) = length tr + 1
   \<and> txSize (last (LCD_SendByte drv byte mode tr)) = 4
   \<and> timeout_ms (last (LCD_SendByte drv byte mode tr)) = 100"
  by (simp add: LCD_SendByte_burst length_spec_burst)

text \<open>
  Claim C6. \<open>LCD_SendByte\<close> returns nothing but the new trace, and what the transport
  answers has no influence on it: with any two transports, whatever statuses they
  return, the Byte Transmitter and every layer above it (the two wrappers, the String
  Writer, the Initialization Sequencer) behave the same.
\<close>

theorem status_not_propagated:
  "LCD_SendByte drv1 byte mode tr = LCD_SendByte drv2 byte mode tr
   \<and> LCD_SendCommand drv1 byte tr = LCD_SendCommand drv2 byte tr
   \<and> LCD_SendData drv1 byte tr = LCD_SendData drv2 byte tr
   \<and> LCD_SendString drv1 mem str tr = LCD_SendString drv2 mem str tr
   \<and> LCD_Init drv1 tr = LCD_Init drv2 tr"
proof -
  have "LCD_SendString drv1 mem str tr = LCD_SendString drv2 mem str tr"
    unfolding LCD_SendString_def
    by (simp add: LCD_SendString_while_any_transport [of drv1 mem str tr drv2])
  then show ?thesis
    by (simp add: LCD_SendByte_burst LCD_SendCommand_burst LCD_SendData_burst LCD_Init_trace)
qed




section \<open>The String Writer\<close>

text \<open>
  Claim C2. On a null-terminated string of N characters, \<open>LCD_SendString\<close> returns
  after N calls of \<open>LCD_SendData\<close>, one for each character in the order of the input:
  the trace grows by N data bursts, the burst of the i-th character at place i, and by
  nothing for the terminator. For the empty string (N = 0) it grows by nothing.
\<close>

theorem LCD_SendString_transmissions:
  "c_string_at mem str cs \<Longrightarrow>
   LCD_SendString drv mem str tr = Some (foldl (\<lambda>t c. LCD_SendData drv c t) tr cs)
   \<and> foldl (\<lambda>t c. LCD_SendData drv c t) tr cs =
       tr @ map (\<lambda>c. MasterSend INST_LPI2C0 (spec_burst c 1) 4 True 100) cs
   \<and> length (foldl (\<lambda>t c. LCD_SendData drv c t) tr cs) = length tr + length cs"
  by (simp add: LCD_SendString_def LCD_SendString_while_c_string foldl_LCD_SendData)

theorem LCD_SendString_transmissions_witness:
  "c_string_at (memory_of 0x100 [0x48, 0x69]) 0x100 [0x48, 0x69]
   \<and> LCD_SendString transport_ok (memory_of 0x100 [0x48, 0x69]) 0x100 [] =
       Some [MasterSend INST_LPI2C0 [0x4D, 0x49, 0x8D, 0x89] 4 True 100,
             MasterSend INST_LPI2C0 [0x6D, 0x69, 0x9D, 0x99] 4 True 100]
   \<and> c_string_at (memory_of 0x100 []) 0x100 []
   \<and> LCD_SendString transport_ok (memory_of 0x100 []) 0x100 [] = Some []"
proof -
  have h: "c_string_at (memory_of 0x100 [0x48, 0x69]) 0x100 [0x48, 0x69]"
    by (simp add: memory_of_def)
  have e: "c_string_at (memory_of 0x100 []) 0x100 []"
    by (simp add: memory_of_def)
  show ?thesis
    using h e LCD_SendString_transmissions [OF h, of transport_ok "[]"]
      LCD_SendString_transmissions [OF e, of transport_ok "[]"]
    by (simp add: spec_burst_def)
qed

text \<open>
  Claim C10. On a null-terminated string \<open>LCD_SendString\<close> returns: its loop exits
  with the pointer on the terminator, that is after exactly one round for each
  character before it, each round having added one transmission to the trace.
\<close>

theorem LCD_SendString_terminates:
  "c_string_at mem str cs \<Longrightarrow>
   LCD_SendString drv mem str tr \<noteq> None
   \<and> map_option fst (LCD_SendString_while drv mem str tr) = Some (str + length cs)
   \<and> map_option length (LCD_SendString drv mem str tr) = Some (length tr + length cs)"
  by (simp add: LCD_SendString_def LCD_SendString_while_c_string)

theorem LCD_SendString_terminates_witness:
  "c_string_at (memory_of 0x200 [0x4F, 0x4B, 0x21]) 0x200 [0x4F, 0x4B, 0x21]
   \<and> LCD_SendString transport_down (memory_of 0x200 [0x4F, 0x4B, 0x21]) 0x200 [] \<noteq> None
   \<and> map_option fst
        (LCD_SendString_while transport_down (memory_of 0x200 [0x4F, 0x4B, 0x21]) 0x200 []) =
       Some 0x203
   \<and> map_option length
        (LCD_SendString transport_down (memory_of 0x200 [0x4F, 0x4B, 0x21]) 0x200 []) =
       Some 3"
proof -
  have h: "c_string_at (memory_of 0x200 [0x4F, 0x4B, 0x21]) 0x200 [0x4F, 0x4B, 0x21]"
    by (simp add: memory_of_def)
  show ?thesis
    using h LCD_SendString_terminates [OF h, of transport_down "[]"]
    by (simp add: numeral_3_eq_3)
qed

text \<open>
  Claim C8, as stated: the string \<open>"27 C "\<close> results in exactly 6 data transmissions.
  It has 5 characters, and the code transmits 5 times.
\<close>

theorem temperature_string_counterexample:
  "map_option length
     (LCD_SendString transport_ok (memory_of 0x100 (map of_char ''27 C '')) 0x100 []) = Some 5
   \<and> map_option length
     (LCD_SendString transport_ok (memory_of 0x100 (map of_char ''27 C '')) 0x100 []) \<noteq> Some 6"
proof -
  have h: "c_string_at (memory_of 0x100 (map of_char ''27 C '')) 0x100 (map of_char ''27 C '')"
    by (simp add: memory_of_def)
  have five: "(5::nat) = Suc (Suc (Suc (Suc (Suc 0))))"
    by simp
  from LCD_SendString_while_c_string [OF h, of transport_ok "[]"] show ?thesis
    by (simp add: LCD_SendString_def five)
qed

text \<open>
  Claim C8, amended. The string \<open>"27 C "\<close> results in exactly 5 data transmissions,
  for the characters '2', '7', ' ', 'C', ' ' in that order, and none for the
  terminator.
\<close>

theorem temperature_string_transmissions:
  "c_string_at mem str (map of_char ''27 C '') \<Longrightarrow>
   LCD_SendString drv mem str tr =
     Some (LCD_SendData drv (of_char CHR '' '')
            (LCD_SendData drv (of_char CHR ''C'')
              (LCD_SendData drv (of_char CHR '' '')
                (LCD_SendData drv (of_char CHR ''7'')
                  (LCD_SendData drv (of_char CHR ''2'') tr)))))
   \<and> LCD_SendString drv mem str tr =
     Some (tr @
       [MasterSend INST_LPI2C0 [0x3D, 0x39, 0x2D, 0x29] 4 True 100,
        MasterSend INST_LPI2C0 [0x3D, 0x39, 0x7D, 0x79] 4 True 100,
        MasterSend INST_LPI2C0 [0x2D, 0x29, 0x0D, 0x09] 4 True 100,
        MasterSend INST_LPI2C0 [0x4D, 0x49, 0x3D, 0x39] 4 True 100,
        MasterSend INST_LPI2C0 [0x2D, 0x29, 0x0D, 0x09] 4 True 100])"
proof -
  assume h: "c_string_at mem str (map of_char ''27 C '')"
  show ?thesis
    by (simp add: LCD_SendString_def LCD_SendString_while_c_string [OF h] LCD_SendData_burst
        spec_burst_def)
qed

theorem temperature_string_transmissions_witness:
  "c_string_at (memory_of 0x100 (map of_char ''27 C '')) 0x100 (map of_char ''27 C '')
   \<and> LCD_SendString transport_ok (memory_of 0x100 (map of_char ''27 C '')) 0x100 [] =
     Some [MasterSend INST_LPI2C0 [0x3D, 0x39, 0x2D, 0x29] 4 True 100,
           MasterSend INST_LPI2C0 [0x3D, 0x39, 0x7D, 0x79] 4 True 100,
           MasterSend INST_LPI2C0 [0x2D, 0x29, 0x0D, 0x09] 4 True 100,
           MasterSend INST_LPI2C0 [0x4D, 0x49, 0x3D, 0x39] 4 True 100,
           MasterSend INST_LPI2C0 [0x2D, 0x29, 0x0D, 0x09] 4 True 100]"
proof -
  have h: "c_string_at (memory_of 0x100 (map of_char ''27 C '')) 0x100 (map of_char ''27 C '')"
    by (simp add: memory_of_def)
  show ?thesis
    using h temperature_string_transmissions [OF h, of transport_ok "[]"]
    by (simp add: LCD_SendData_burst spec_burst_def)
qed

section \<open>The Initialization Sequencer\<close>

text \<open>
  Claim C3, as stated: the trace of \<open>LCD_Init\<close> matches exactly the eight steps of
  section 4.4. It does not: the steps 2 and 3 of that section are raw half-byte
  transactions, and the code sends full 4-byte bursts there. All the other events
  match their steps.
\<close>

theorem init_sequence_counterexample:
  "\<not> list_all2 step_matches spec_init_steps (LCD_Init transport_ok [])
   \<and> \<not> step_matches (spec_init_steps ! 1) (LCD_Init transport_ok [] ! 1)
   \<and> \<not> step_matches (spec_init_steps ! 7) (LCD_Init transport_ok [] ! 7)
   \<and> step_matches (spec_init_steps ! 0) (LCD_Init transport_ok [] ! 0)
   \<and> list_all2 step_matches (drop 8 spec_init_steps) (drop 8 (LCD_Init transport_ok []))"
  by (simp add: LCD_Init_trace spec_init_steps_def init_steps_def spec_burst_def
      spec_raw_nibble_def)

text \<open>
  Claim C3, amended. \<open>LCD_Init\<close> adds to the trace exactly fifteen events, which are
  the eight steps in order with none skipped or reordered, the sync and the switch step
  being the full bursts of the bytes 0x30 and 0x20: the power-settle delay 50; three
  times the burst of 0x30, followed by the delays 5, 1 and 1; the burst of 0x20 and the
  delay 1; the command bursts of 0x28 (function set), 0x0C (display control) and 0x01
  (clear), the delay 2, and the command bursts of 0x06 (entry mode) and 0x02 (home).
  Each delay is at least its stated minimum.
\<close>

theorem LCD_Init_sequence:
  "LCD_Init drv tr = tr @
    [TimeDelay 50,
     MasterSend INST_LPI2C0 [0x3C, 0x38, 0x0C, 0x08] 4 True 100,
     TimeDelay 5,
     MasterSend INST_LPI2C0 [0x3C, 0x38, 0x0C, 0x08] 4 True 100,
     TimeDelay 1,
     MasterSend INST_LPI2C0 [0x3C, 0x38, 0x0C, 0x08] 4 True 100,
     TimeDelay 1,
     MasterSend INST_LPI2C0 [0x2C, 0x28, 0x0C, 0x08] 4 True 100,
     TimeDelay 1,
     MasterSend INST_LPI2C0 [0x2C, 0x28, 0x8C, 0x88] 4 True 100,
     MasterSend INST_LPI2C0 [0x0C, 0x08, 0xCC, 0xC8] 4 True 100,
     MasterSend INST_LPI2C0 [0x0C, 0x08, 0x1C, 0x18] 4 True 100,
     TimeDelay 2,
     MasterSend INST_LPI2C0 [0x0C, 0x08, 0x6C, 0x68] 4 True 100,
     MasterSend INST_LPI2C0 [0x0C, 0x08, 0x2C, 0x28] 4 True 100]
   \<and> list_all2 step_matches (init_steps (Spec_Command 0x30) (Spec_Command 0x20))
        (drop (length tr) (LCD_Init drv tr))
   \<and> requested_delays (drop (length tr) (LCD_Init drv tr)) = [50, 5, 1, 1, 1, 2]
   \<and> list_all2 (\<le>) [50, 5, 1, 1, 1, 2] (requested_delays (drop (length tr) (LCD_Init drv tr)))"
  by (simp add: LCD_Init_trace init_steps_def spec_burst_def)

text \<open>
  Claim C4, as stated: the sync steps and the switch to 4-bit send the nibbles 0x3 and
  0x2 as raw half-byte transactions, not as calls of the Byte Transmitter. In the code
  each of them is the call \<open>LCD_SendByte(0x30, 0)\<close> or \<open>LCD_SendByte(0x20, 0)\<close>: the
  event is the one a full Byte Transmitter call emits, four bytes long, and not the
  two bytes of one nibble group.
\<close>

theorem raw_nibble_counterexample:
  "LCD_Init transport_ok [] ! 1 = last (LCD_SendByte transport_ok 0x30 0 [])
   \<and> txBuff (LCD_Init transport_ok [] ! 1) = [0x3C, 0x38, 0x0C, 0x08]
   \<and> txBuff (LCD_Init transport_ok [] ! 1) \<noteq> spec_raw_nibble 0x3 0
   \<and> LCD_Init transport_ok [] ! 7 = last (LCD_SendByte transport_ok 0x20 0 [])
   \<and> txBuff (LCD_Init transport_ok [] ! 7) = [0x2C, 0x28, 0x0C, 0x08]
   \<and> txBuff (LCD_Init transport_ok [] ! 7) \<noteq> spec_raw_nibble 0x2 0"
  by (simp add: LCD_Init_trace LCD_SendByte_burst spec_burst_def spec_raw_nibble_def)

text \<open>
  Claim C4, amended. During initialization the three sync steps each transmit the byte
  0x30, and the switch to 4-bit transmits the byte 0x20, by a full Byte Transmitter
  call in command mode: one 4-byte burst, the nibble group of 0x3 (or 0x2) followed by
  the nibble group of 0x0.
\<close>

theorem LCD_Init_sync_steps:
  "take 9 (drop (length tr) (LCD_Init drv tr)) =
     [TimeDelay 50, last (LCD_SendByte drv 0x30 0 []),
      TimeDelay 5, last (LCD_SendByte drv 0x30 0 []),
      TimeDelay 1, last (LCD_SendByte drv 0x30 0 []),
      TimeDelay 1, last (LCD_SendByte drv 0x20 0 []),
      TimeDelay 1]
   \<and> txBuff (last (LCD_SendByte drv 0x30 0 [])) = spec_raw_nibble 0x3 0 @ spec_raw_nibble 0x0 0
   \<and> txBuff (last (LCD_SendByte drv 0x20 0 [])) = spec_raw_nibble 0x2 0 @ spec_raw_nibble 0x0 0
   \<and> txBuff (last (LCD_SendByte drv 0x30 0 [])) = [0x3C, 0x38, 0x0C, 0x08]
   \<and> txBuff (last (LCD_SendByte drv 0x20 0 [])) = [0x2C, 0x28, 0x0C, 0x08]"
  by (simp add: LCD_Init_trace LCD_SendByte_burst spec_burst_def spec_raw_nibble_def)

end
